theory Spec2Isabelle
  imports Complex_Main
begin

section \<open>Python strings\<close>

text \<open>
  A Python \<open>str\<close> is modelled as a \<open>string\<close>. The model is exact on ASCII text; a code
  point beyond ASCII stands as its UTF-8 bytes, which the functions below treat as
  caseless characters that are neither whitespace nor word characters (as U+2019, the
  only such code point of the sources' patterns, is in Python).
\<close>

definition is_space :: "char \<Rightarrow> bool" where
  \<comment> \<open>\<open>str.isspace\<close> and the class \<open>\s\<close>: tab to carriage return, the four separators, space\<close>
  "is_space c = (let n = (of_char c :: nat) in (9 \<le> n \<and> n \<le> 13) \<or> (28 \<le> n \<and> n \<le> 32))"

definition is_upper :: "char \<Rightarrow> bool" where
  "is_upper c = (let n = (of_char c :: nat) in 65 \<le> n \<and> n \<le> 90)"

definition is_lower :: "char \<Rightarrow> bool" where
  "is_lower c = (let n = (of_char c :: nat) in 97 \<le> n \<and> n \<le> 122)"

definition is_digit :: "char \<Rightarrow> bool" where
  "is_digit c = (let n = (of_char c :: nat) in 48 \<le> n \<and> n \<le> 57)"

definition is_word :: "char \<Rightarrow> bool" where
  \<comment> \<open>the class \<open>\w\<close>\<close>
  "is_word c = (is_lower c \<or> is_upper c \<or> is_digit c \<or> c = CHR ''_'')"

definition lower_char :: "char \<Rightarrow> char" where
  "lower_char c = (if is_upper c then char_of ((of_char c :: nat) + 32) else c)"

definition upper_char :: "char \<Rightarrow> char" where
  "upper_char c = (if is_lower c then char_of ((of_char c :: nat) - 32) else c)"

definition lower :: "string \<Rightarrow> string" where
  \<comment> \<open>\<open>str.lower\<close>\<close>
  "lower s = map lower_char s"

definition upper :: "string \<Rightarrow> string" where
  \<comment> \<open>\<open>str.upper\<close>\<close>
  "upper s = map upper_char s"

definition capitalize :: "string \<Rightarrow> string" where
  \<comment> \<open>\<open>str.capitalize\<close>: first character upper case, the rest lower case\<close>
  "capitalize s = (case s of [] \<Rightarrow> [] | c # cs \<Rightarrow> upper_char c # lower cs)"

definition isupper :: "string \<Rightarrow> bool" where
  \<comment> \<open>\<open>str.isupper\<close>: no lower-case character and at least one upper-case one\<close>
  "isupper s = ((\<forall>c \<in> set s. \<not> is_lower c) \<and> (\<exists>c \<in> set s. is_upper c))"

definition lstrip :: "string \<Rightarrow> string" where
  "lstrip s = dropWhile is_space s"

definition rstrip :: "string \<Rightarrow> string" where
  "rstrip s = rev (dropWhile is_space (rev s))"

definition strip :: "string \<Rightarrow> string" where
  \<comment> \<open>\<open>str.strip()\<close>\<close>
  "strip s = rstrip (lstrip s)"

fun startswith :: "string \<Rightarrow> string \<Rightarrow> bool" where
  \<comment> \<open>\<open>s.startswith(p)\<close>\<close>
  "startswith s [] = True"
| "startswith [] (p # ps) = False"
| "startswith (c # cs) (p # ps) = (c = p \<and> startswith cs ps)"

definition endswith :: "string \<Rightarrow> string \<Rightarrow> bool" where
  "endswith s p = startswith (rev s) (rev p)"

fun contains :: "string \<Rightarrow> string \<Rightarrow> bool" where
  \<comment> \<open>\<open>p in s\<close> on strings: \<open>p\<close> occurs in \<open>s\<close> as a substring\<close>
  "contains [] p = (p = [])"
| "contains (c # cs) p = (startswith (c # cs) p \<or> contains cs p)"

section \<open>Regular expressions\<close>

text \<open>
  The part of Python's \<open>re\<close> that the sources use, as a backtracking matcher: a pattern
  applied to a position gives every way it can match there, in the order in which
  \<open>re\<close> tries them, so that the head of the list is the match \<open>re\<close> reports. A position
  is the character before it (for \<open>\b\<close> and \<open>^\<close>) and the text after it.
\<close>

datatype cls =
    Lit char              \<comment> \<open>one literal character\<close>
  | Space                 \<comment> \<open>\<open>\s\<close>\<close>
  | Word                  \<comment> \<open>\<open>\w\<close>\<close>
  | OneOf string          \<comment> \<open>\<open>[...]\<close> listing its characters\<close>
  | Range char char       \<comment> \<open>\<open>[a-z]\<close>\<close>

datatype rx =
    Atom cls
  | Eps
  | Seq rx rx
  | Alt rx rx             \<comment> \<open>\<open>r|s\<close>, the left alternative first\<close>
  | Star rx               \<comment> \<open>\<open>r*\<close>, greedy\<close>
  | Grp nat rx            \<comment> \<open>capturing group number \<open>n\<close>\<close>
  | WordB                 \<comment> \<open>\<open>\b\<close>\<close>
  | Bol                   \<comment> \<open>\<open>^\<close>\<close>
  | Eol                   \<comment> \<open>\<open>$\<close>: at the end, or before a newline that ends the text\<close>


fun Seqs :: "rx list \<Rightarrow> rx" where
  "Seqs [] = Eps"
| "Seqs [r] = r"
| "Seqs (r # rs) = Seq r (Seqs rs)"


definition Plus :: "rx \<Rightarrow> rx" where
  "Plus r = Seq r (Star r)"


fun AtLeast :: "nat \<Rightarrow> rx \<Rightarrow> rx" where
  \<comment> \<open>\<open>r{n,}\<close>\<close>
  "AtLeast 0 r = Star r"
| "AtLeast (Suc n) r = Seq r (AtLeast n r)"

record mstate =
  prev :: "char option"            \<comment> \<open>the character before the position\<close>
  rest :: string                   \<comment> \<open>the text from the position on\<close>
  grps :: "(nat \<times> string) list"    \<comment> \<open>the groups captured so far, the latest first\<close>

definition cls_matches :: "bool \<Rightarrow> cls \<Rightarrow> char \<Rightarrow> bool" where
  \<comment> \<open>the flag is \<open>re.I\<close>\<close>
  "cls_matches ic k c = (case k of
       Lit l \<Rightarrow> (if ic then lower_char c = lower_char l else c = l)
     | Space \<Rightarrow> is_space c
     | Word \<Rightarrow> is_word c
     | OneOf s \<Rightarrow> (if ic then lower_char c \<in> set (lower s) else c \<in> set s)
     | Range a b \<Rightarrow> (let n = (of_char c :: nat); m = (of_char (lower_char c) :: nat);
                        u = (of_char (upper_char c) :: nat);
                        lo = (of_char a :: nat); hi = (of_char b :: nat)
                    in (lo \<le> n \<and> n \<le> hi) \<or> (ic \<and> ((lo \<le> m \<and> m \<le> hi) \<or> (lo \<le> u \<and> u \<le> hi)))))"

definition at_word_boundary :: "mstate \<Rightarrow> bool" where
  "at_word_boundary st =
     ((case prev st of None \<Rightarrow> False | Some c \<Rightarrow> is_word c)
      \<noteq> (case rest st of [] \<Rightarrow> False | c # _ \<Rightarrow> is_word c))"

definition last_char :: "char option \<Rightarrow> string \<Rightarrow> char option" where
  "last_char p s = (if s = [] then p else Some (last s))"

function rxm :: "bool \<Rightarrow> rx \<Rightarrow> mstate \<Rightarrow> mstate list" where
  "rxm ic (Atom k) st =
     (case rest st of
        [] \<Rightarrow> []
      | c # cs \<Rightarrow> (if cls_matches ic k c then [st\<lparr>prev := Some c, rest := cs\<rparr>] else []))"
| "rxm ic Eps st = [st]"
| "rxm ic (Seq r s) st = concat (map (rxm ic s) (rxm ic r st))"
| "rxm ic (Alt r s) st = rxm ic r st @ rxm ic s st"
| "rxm ic (Star r) st =
     concat (map (rxm ic (Star r))
                 (filter (\<lambda>st'. length (rest st') < length (rest st)) (rxm ic r st))) @ [st]"
| "rxm ic (Grp n r) st =
     map (\<lambda>st'. st'\<lparr>grps := (n, take (length (rest st) - length (rest st')) (rest st)) # grps st'\<rparr>)
         (rxm ic r st)"
| "rxm ic WordB st = (if at_word_boundary st then [st] else [])"
| "rxm ic Bol st = (if prev st = None then [st] else [])"
| "rxm ic Eol st = (if rest st = [] \<or> rest st = [CHR 0x0A] then [st] else [])"
  by pat_completeness auto
termination
  by (relation "(\<lambda>(ic, r, st). size r) <*mlex*> measure (\<lambda>(ic, r, st). length (rest st))")
     (auto simp: wf_mlex mlex_prod_def)

definition group :: "mstate \<Rightarrow> nat \<Rightarrow> string" where
  \<comment> \<open>\<open>m.group(n)\<close> for \<open>n > 0\<close>\<close>
  "group st n = (case map_of (grps st) n of None \<Rightarrow> [] | Some s \<Rightarrow> s)"

definition match_at :: "bool \<Rightarrow> rx \<Rightarrow> char option \<Rightarrow> string \<Rightarrow> mstate option" where
  "match_at ic r p s =
     (case rxm ic r \<lparr>prev = p, rest = s, grps = []\<rparr> of [] \<Rightarrow> None | st # _ \<Rightarrow> Some st)"


fun search_from :: "bool \<Rightarrow> rx \<Rightarrow> char option \<Rightarrow> string \<Rightarrow> bool" where
  "search_from ic r p [] = (match_at ic r p [] \<noteq> None)"
| "search_from ic r p (c # cs) = (match_at ic r p (c # cs) \<noteq> None \<or> search_from ic r (Some c) cs)"

definition re_search :: "bool \<Rightarrow> rx \<Rightarrow> string \<Rightarrow> bool" where
  \<comment> \<open>\<open>re.search(r, s)\<close> as a truth value\<close>
  "re_search ic r s = search_from ic r None s"

function sub_from :: "bool \<Rightarrow> rx \<Rightarrow> (mstate \<Rightarrow> string) \<Rightarrow> char option \<Rightarrow> string \<Rightarrow> string" where
  "sub_from ic r repl p s =
     (case match_at ic r p s of
        None \<Rightarrow> (case s of [] \<Rightarrow> [] | c # cs \<Rightarrow> c # sub_from ic r repl (Some c) cs)
      | Some st \<Rightarrow>
          (let k = length s - length (rest st) in
           if k = 0 then repl st @ (case s of [] \<Rightarrow> [] | c # cs \<Rightarrow> c # sub_from ic r repl (Some c) cs)
           else repl st @ sub_from ic r repl (last_char p (take k s)) (drop k s)))"
  by pat_completeness auto
termination
  by (relation "measure (\<lambda>(ic, r, repl, p, s). length s)") auto

definition re_sub :: "bool \<Rightarrow> rx \<Rightarrow> (mstate \<Rightarrow> string) \<Rightarrow> string \<Rightarrow> string" where
  \<comment> \<open>\<open>re.sub(r, repl, s)\<close>: the matches from left to right, none overlapping another;
      the patterns of the sources all consume at least one character\<close>
  "re_sub ic r repl s = sub_from ic r repl None s"

section \<open>Data model\<close>

text \<open>
  The annotator (spaCy) and the checker (LanguageTool) are not code of the repository:
  they are parameters of the model. A token carries the attributes the stages read.
  A token's index \<open>i\<close> is its position in the document.
\<close>

record token =
  tok_text :: string          \<comment> \<open>\<open>text\<close>\<close>
  tok_ws :: string            \<comment> \<open>\<open>whitespace_\<close>\<close>
  tok_pos :: string           \<comment> \<open>\<open>pos_\<close>\<close>
  tok_tag :: string           \<comment> \<open>\<open>tag_\<close>\<close>
  tok_lemma :: string         \<comment> \<open>\<open>lemma_\<close>\<close>
  tok_dep :: string           \<comment> \<open>\<open>dep_\<close>\<close>
  tok_head :: nat             \<comment> \<open>the index of \<open>head\<close>; a root is its own head\<close>
  tok_is_punct :: bool        \<comment> \<open>\<open>is_punct\<close>\<close>
  tok_is_space :: bool        \<comment> \<open>\<open>is_space\<close>\<close>
  tok_sent_start :: bool      \<comment> \<open>\<open>is_sent_start\<close>\<close>

type_synonym doc = "token list"

definition text_with_ws :: "token \<Rightarrow> string" where
  "text_with_ws t = tok_text t @ tok_ws t"

definition tok_idx :: "doc \<Rightarrow> nat \<Rightarrow> nat" where
  \<comment> \<open>\<open>token.idx\<close>: the character offset of token \<open>i\<close>\<close>
  "tok_idx d i = length (concat (map text_with_ws (take i d)))"

fun sents :: "doc \<Rightarrow> doc list" where
  \<comment> \<open>\<open>doc.sents\<close>: a sentence starts at every token marked as a sentence start\<close>
  "sents [] = []"
| "sents [t] = [[t]]"
| "sents (t # u # ts) =
     (if tok_sent_start u then [t] # sents (u # ts)
      else (case sents (u # ts) of [] \<Rightarrow> [[t]] | g # gs \<Rightarrow> (t # g) # gs))"

definition span_text :: "doc \<Rightarrow> string" where
  \<comment> \<open>\<open>Span.text\<close>: without the whitespace after the last token\<close>
  "span_text ts = (case ts of [] \<Rightarrow> [] | _ \<Rightarrow> concat (map text_with_ws (butlast ts)) @ tok_text (last ts))"

datatype exn = IndexError | Exception string

record services =
  nlp :: "string \<Rightarrow> doc"                             \<comment> \<open>\<open>self.nlp\<close>, shared by the stages\<close>
  spacy_model :: "string \<Rightarrow> doc"                     \<comment> \<open>\<open>get_spacy_model()\<close> of \<open>utils\<close>\<close>
  tool_check :: "string \<Rightarrow> exn + nat"               \<comment> \<open>\<open>self.tool.check\<close>: the number of matches\<close>
  tool_correct :: "string \<Rightarrow> exn + string"          \<comment> \<open>\<open>self.tool.correct\<close>\<close>
  gf :: "(string \<Rightarrow> exn + string list) option"      \<comment> \<open>\<open>self.gf\<close>, \<open>None\<close> when Gramformer is absent\<close>
  re_compile :: "string \<Rightarrow> exn + rx"                \<comment> \<open>Python's pattern parser, for a pattern built from a token\<close>

text \<open>
  An edit is a Python dict; its keys are the fields below, \<open>None\<close> for a key that is
  absent. Floats are modelled as rationals.
\<close>

record edit =
  e_phase :: "int option"
  e_phase_name :: "string option"
  e_type :: "string option"
  e_orig :: "string option"
  e_repl :: "string option"
  e_source :: "string option"
  e_subject :: "string option"
  e_message :: "string option"
  e_from :: "string option"
  e_to :: "string option"
  e_span :: "(nat \<times> nat) option"
  e_antecedent :: "string option"
  e_reason :: "string option"
  e_noun :: "string option"
  e_confidence :: "rat option"

definition no_edit :: edit where
  \<comment> \<open>the empty dict\<close>
  "no_edit = \<lparr>e_phase = None, e_phase_name = None, e_type = None, e_orig = None, e_repl = None,
     e_source = None, e_subject = None, e_message = None, e_from = None, e_to = None,
     e_span = None, e_antecedent = None, e_reason = None, e_noun = None, e_confidence = None\<rparr>"

text \<open>A stage's result is a dict too: \<open>None\<close> is a key the stage did not set.\<close>

record stage_result =
  corrected_text :: "string option"
  issues_found :: "edit list option"
  confidence :: "rat option"
  dominant_tense :: "string option"

definition py_round :: "nat \<Rightarrow> rat \<Rightarrow> rat" where
  \<comment> \<open>\<open>round(x, n)\<close>: to the nearest multiple of \<open>10^-n\<close>, a tie to the even one\<close>
  "py_round n x =
     (let y = x * 10 ^ n; f = \<lfloor>y\<rfloor>; d = y - of_int f
      in of_int (if d < 1 / 2 then f else if 1 / 2 < d then f + 1 else if even f then f else f + 1)
           / 10 ^ n)"

section \<open>\<open>utils\<close>\<close>

definition preprocess_text :: "string \<Rightarrow> string" where
  "preprocess_text text = re_sub False (Plus (Atom Space)) (\<lambda>m. '' '') (strip text)"


section \<open>Phase 7: tense consistency (\<open>phase7_tense.py\<close>)\<close>

definition irregular :: "(string \<times> string) list" where
  \<comment> \<open>\<open>self.irregular\<close>, in the order of the dict\<close>
  "irregular =
    [(''go'', ''went''), (''buy'', ''bought''), (''come'', ''came''), (''do'', ''did''),
     (''eat'', ''ate''), (''give'', ''gave''),
     (''have'', ''had''), (''know'', ''knew''), (''make'', ''made''), (''see'', ''saw''),
     (''take'', ''took''), (''think'', ''thought''),
     (''write'', ''wrote''), (''run'', ''ran''), (''find'', ''found''), (''leave'', ''left''),
     (''say'', ''said''), (''get'', ''got''),
     (''begin'', ''began''), (''drink'', ''drank''), (''drive'', ''drove''), (''fly'', ''flew''),
     (''grow'', ''grew''), (''sing'', ''sang''),
     (''swim'', ''swam''), (''wear'', ''wore''), (''sell'', ''sold''), (''tell'', ''told''),
     (''choose'', ''chose''), (''fall'', ''fell''),
     (''forget'', ''forgot''), (''freeze'', ''froze''), (''keep'', ''kept''), (''meet'', ''met''),
     (''ride'', ''rode''),
     (''speak'', ''spoke''), (''teach'', ''taught''), (''understand'', ''understood''),
     (''win'', ''won''), (''break'', ''broke'')]"



definition present_clues :: "string list" where
  "present_clues = [''now'', ''today'', ''always'', ''every'']"

definition past_participle :: "string \<Rightarrow> string" where
  \<comment> \<open>\<open>_past_participle\<close>: the loop returns at the first pair whose base is the verb\<close>
  "past_participle verb =
     (case find (\<lambda>(b, p). lower verb = b) irregular of
        Some (b, p) \<Rightarrow> p
      | None \<Rightarrow> (if \<not> endswith verb ''ed'' then verb @ ''ed'' else verb))"

definition get_base :: "string \<Rightarrow> string" where
  \<comment> \<open>\<open>_get_base\<close>: the loop returns at the first pair whose past form is the verb\<close>
  "get_base verb =
     (case find (\<lambda>(b, p). lower verb = p) irregular of
        Some (b, p) \<Rightarrow> b
      | None \<Rightarrow> verb)"




















fun join :: "string \<Rightarrow> string list \<Rightarrow> string" where
  \<comment> \<open>\<open>sep.join(xs)\<close>\<close>
  "join sep [] = []"
| "join sep [x] = x"
| "join sep (x # xs) = x @ sep @ join sep xs"



section \<open>Phase 8: pronoun agreement (\<open>phase8_pronoun.py\<close>)\<close>

definition PRONOUN_FORMS :: "(string \<times> (string \<times> string) list) list" where
  "PRONOUN_FORMS =
     [(''he'', [(''nom'', ''he''), (''obj'', ''him''), (''poss'', ''his'')]),
      (''she'', [(''nom'', ''she''), (''obj'', ''her''), (''poss'', ''her'')]),
      (''it'', [(''nom'', ''it''), (''obj'', ''it''), (''poss'', ''its'')]),
      (''they'', [(''nom'', ''they''), (''obj'', ''them''), (''poss'', ''their'')])]"

definition SINGULAR_MALE :: "string set" where
  "SINGULAR_MALE = {''boy'', ''man'', ''father'', ''king'', ''john'', ''ravi'', ''brother'', ''uncle''}"

definition SINGULAR_FEMALE :: "string set" where
  "SINGULAR_FEMALE = {''girl'', ''woman'', ''mother'', ''mary'', ''sister'', ''aunt'', ''queen''}"

definition SINGULAR_NEUTER :: "string set" where
  "SINGULAR_NEUTER = {''dog'', ''book'', ''car'', ''shop'', ''market'', ''city'', ''team'',
     ''committee'', ''child'', ''student''}"

definition PLURAL :: "string set" where
  "PLURAL = {''people'', ''students'', ''friends'', ''children'', ''police'', ''data'', ''teachers''}"

definition pronouns :: "string set" where
  \<comment> \<open>the closed set of \<open>correct\<close>\<close>
  "pronouns = {''he'', ''she'', ''it'', ''they'', ''him'', ''her'', ''his'', ''its'', ''them'', ''their''}"

definition range_down :: "int \<Rightarrow> int \<Rightarrow> int list" where
  \<comment> \<open>\<open>range(start, stop, -1)\<close>: from \<open>start\<close> down to \<open>stop + 1\<close>\<close>
  "range_down start stop = rev [stop + 1 .. start]"

definition tok_truthy :: "token \<Rightarrow> bool" where
  \<comment> \<open>the truth value of a token is that of its length\<close>
  "tok_truthy t = (tok_text t \<noteq> [])"

definition antecedent_ok :: "token \<Rightarrow> bool" where
  \<comment> \<open>the two tests of the loop of \<open>_find_antecedent\<close>\<close>
  "antecedent_ok t = (tok_pos t \<in> {''NOUN'', ''PROPN''} \<and> tok_dep t \<notin> {''pobj'', ''poss''})"

definition find_antecedent :: "doc \<Rightarrow> nat \<Rightarrow> nat option" where
  \<comment> \<open>\<open>_find_antecedent\<close>, for the pronoun at index \<open>i\<close>: the index of the token returned\<close>
  "find_antecedent d i =
     map_option nat
       (find (\<lambda>j. antecedent_ok (d ! nat j)) (range_down (int i - 1) (max (- 1) (int i - 20))))"

definition expected_pronoun :: "doc \<Rightarrow> nat \<Rightarrow> nat \<Rightarrow> string option" where
  \<comment> \<open>\<open>_expected_pronoun\<close>, for the antecedent at index \<open>a\<close> and the pronoun at index \<open>i\<close>\<close>
  "expected_pronoun d a i =
     (let ant_token = d ! a;
          ant = lower (tok_text ant_token);
          pron = lower (tok_text (d ! i));
          base = (if ant \<in> SINGULAR_MALE then ''he''
                  else if ant \<in> SINGULAR_FEMALE then ''she''
                  else if ant \<in> SINGULAR_NEUTER then ''it''
                  else if ant \<in> PLURAL \<or> tok_tag ant_token \<in> {''NNS'', ''NNPS''} then ''they''
                  else (if tok_tag ant_token \<in> {''NNS'', ''NNPS''} then ''they'' else ''it''));
          prev_token = (if 0 < i then Some (d ! (i - 1)) else None);
          next_token = (if i + 1 < length d then Some (d ! (i + 1)) else None);
          form = (if pron \<in> {''his'', ''her'', ''its'', ''their''}
                     \<or> (case next_token of None \<Rightarrow> False
                         | Some t \<Rightarrow> tok_truthy t \<and> tok_pos t = ''NOUN'') then ''poss''
                  else if pron \<in> {''him'', ''her'', ''it'', ''them''}
                     \<or> (case prev_token of None \<Rightarrow> False
                         | Some t \<Rightarrow> tok_truthy t \<and> tok_pos t = ''VERB'') then ''obj''
                  else ''nom'')
      in case map_of PRONOUN_FORMS base of None \<Rightarrow> None | Some forms \<Rightarrow> map_of forms form)"

definition pronoun_step :: "doc \<Rightarrow> string list \<times> edit list \<Rightarrow> nat \<Rightarrow> string list \<times> edit list" where
  \<comment> \<open>the body of the loop of \<open>correct\<close>, for the token at index \<open>i\<close>\<close>
  "pronoun_step d acc i = (case acc of (tokens, issues) \<Rightarrow>
     let token = d ! i; pron = lower (tok_text token)
     in if tok_pos token \<noteq> ''PRON'' then (tokens, issues)
        else if pron \<notin> pronouns then (tokens, issues)
        else
          (case find_antecedent d i of
             None \<Rightarrow> (tokens, issues)
           | Some a \<Rightarrow>
               if \<not> tok_truthy (d ! a) then (tokens, issues)
               else
                 (case expected_pronoun d a i of
                    None \<Rightarrow> (tokens, issues)
                  | Some expected \<Rightarrow>
                      if expected = [] \<or> lower expected = pron then (tokens, issues)
                      else
                        (let fixed = (if is_upper (hd (tok_text token)) then capitalize expected
                                      else expected)
                         in (tokens[i := fixed @ tok_ws token],
                             issues @ [no_edit\<lparr>
                               e_span := Some (tok_idx d i, tok_idx d i + length (tok_text token)),
                               e_orig := Some (tok_text token), e_repl := Some fixed,
                               e_antecedent := Some (tok_text (d ! a)),
                               e_confidence := Some (99 / 100), e_phase := Some 8\<rparr>])))))"

definition pronoun_correct :: "services \<Rightarrow> string \<Rightarrow> stage_result" where
  \<comment> \<open>\<open>PronounAgreementCorrector.correct\<close>\<close>
  "pronoun_correct sv text =
     (if strip text = [] then
        \<lparr>corrected_text = Some text, issues_found = Some [], confidence = None, dominant_tense = None\<rparr>
      else
        (let d = nlp sv text
         in case foldl (pronoun_step d) (map text_with_ws d, []) [0 ..< length d] of
              (tokens, issues) \<Rightarrow>
                \<lparr>corrected_text =
                   Some (strip (re_sub False (AtLeast 2 (Atom Space)) (\<lambda>m. '' '')
                      (re_sub False (Seq (Plus (Atom Space)) (Grp 1 (Atom (OneOf ''.,!?''))))
                         (\<lambda>m. group m 1) (concat tokens)))),
                 issues_found = Some issues,
                 confidence = Some (if issues \<noteq> [] then 99 / 100 else 1),
                 dominant_tense = None\<rparr>))"

section \<open>Phase 9: conjunctions (\<open>phase9_conjunctions.py\<close>)\<close>

definition any_in :: "string list \<Rightarrow> string \<Rightarrow> bool" where
  \<comment> \<open>\<open>any(w in s for w in ws)\<close>\<close>
  "any_in ws s = (\<exists>w \<in> set ws. contains s w)"

definition is_contrast :: "string \<Rightarrow> string \<Rightarrow> bool" where
  \<comment> \<open>\<open>_is_contrast\<close>\<close>
  "is_contrast p c =
     (let neg_words = [''not'', ''no'', ''never'', ''none'', ''hardly'', ''rarely''];
          positive_words = [''good'', ''happy'', ''success'', ''excellent'', ''love'', ''like'', ''win''];
          negative_words = [''bad'', ''sad'', ''fail'', ''hate'', ''lose'', ''poor'']
      in if any_in positive_words p \<and> any_in negative_words c then True
         else if any_in negative_words p \<and> any_in positive_words c then True
         else if (any_in neg_words p \<and> \<not> any_in neg_words c)
                 \<or> (\<not> any_in neg_words p \<and> any_in neg_words c) then True
         else False)"

definition ends_terminal :: "string \<Rightarrow> bool" where
  \<comment> \<open>\<open>re.search(r"[.!?]$", prev.strip())\<close>\<close>
  "ends_terminal prv = re_search False (Seq (Atom (OneOf ''.!?'')) Eol) (strip prv)"

definition choose_connector :: "string \<Rightarrow> string \<Rightarrow> string \<times> string" where
  \<comment> \<open>\<open>_choose_connector\<close>\<close>
  "choose_connector prv cur =
     (let p = lower prv; c = lower cur
      in if any_in [''because'', ''since'', ''therefore'', ''hence''] c then ('''', '''')
         else if is_contrast p c then (''but'', ''contrast'')
         else if any_in [''because'', ''since'', ''due to'', ''as a result''] p then (''so'', ''cause-result'')
         else if any_in [''reason'', ''cause''] p \<or> any_in [''result'', ''therefore''] c
           then (''therefore'', ''cause-result'')
         else if any_in [''first'', ''after'', ''before'', ''later'', ''next''] p then (''then'', ''sequence'')
         else if any_in [''then'', ''afterward'', ''later'', ''finally''] c then ('''', '''')
         else if ends_terminal prv then (''and'', ''addition'')
         else ('''', ''''))"

definition fix_spacing :: "string \<Rightarrow> string" where
  \<comment> \<open>\<open>_fix_spacing\<close>\<close>
  "fix_spacing text0 =
     (let t1 = re_sub False (Seq (Plus (Atom Space)) (Grp 1 (Atom (OneOf ''.,!?;:''))))
                 (\<lambda>m. group m 1) text0;
          t2 = re_sub False (Seqs [Star (Atom Space), Grp 1 (Atom (OneOf ''!?.,;:'')), Star (Atom Space)])
                 (\<lambda>m. group m 1 @ '' '') t1;
          t3 = re_sub False (AtLeast 2 (Atom Space)) (\<lambda>m. '' '') t2;
          t4 = re_sub False (Seqs [Star (Atom Space), Atom (Lit CHR '',''), Star (Atom Space)])
                 (\<lambda>m. '', '') t3;
          t5 = re_sub False (Seqs [Star (Atom Space), Atom (Lit CHR ''.''), Star (Atom Space)])
                 (\<lambda>m. ''. '') t4
      in strip t5)"

definition connect :: "string \<Rightarrow> string \<Rightarrow> string list \<times> edit list \<Rightarrow> string list \<times> edit list" where
  \<comment> \<open>the body of the loop of \<open>correct\<close>, for the sentences \<open>prev\<close> and \<open>cur\<close>\<close>
  "connect prv cur acc = (case acc of (enhanced, issues) \<Rightarrow>
     (case choose_connector prv cur of (connector, reason) \<Rightarrow>
        if connector \<noteq> [] then
          (let conn = (if ends_terminal prv then capitalize connector else connector);
               new_sent = (if \<not> startswith (lower cur) conn then '' '' @ conn @ '', '' @ cur
                           else '' '' @ cur);
               enhanced' = enhanced @ [new_sent]
           in (enhanced',
               issues @ [no_edit\<lparr>
                 e_span := Some (length (concat (butlast enhanced')), length (concat enhanced')),
                 e_orig := Some '''', e_repl := Some conn, e_type := Some ''connector'',
                 e_reason := Some reason, e_confidence := Some (99 / 100)\<rparr>]))
        else (enhanced @ ['' '' @ cur], issues)))"

fun connect_all :: "string \<Rightarrow> string list \<Rightarrow> string list \<times> edit list \<Rightarrow> string list \<times> edit list" where
  \<comment> \<open>the loop of \<open>correct\<close> over the sentences after the first, \<open>prv\<close> being the one before\<close>
  "connect_all prv [] acc = acc"
| "connect_all prv (cur # others) acc = connect_all cur others (connect prv cur acc)"

definition conj_correct :: "services \<Rightarrow> string \<Rightarrow> stage_result" where
  \<comment> \<open>\<open>ConjunctionsCorrector.correct\<close>\<close>
  "conj_correct sv text =
     (if strip text = [] then
        \<lparr>corrected_text = Some text, issues_found = Some [], confidence = None, dominant_tense = None\<rparr>
      else
        (case map (\<lambda>s. strip (span_text s)) (sents (nlp sv text)) of
           [] \<Rightarrow> \<lparr>corrected_text = Some text, issues_found = Some [], confidence = Some 1,
                   dominant_tense = None\<rparr>
         | [s] \<Rightarrow> \<lparr>corrected_text = Some text, issues_found = Some [], confidence = Some 1,
                    dominant_tense = None\<rparr>
         | first # second # others \<Rightarrow>
             (case connect_all first (second # others) ([first], []) of (enhanced, issues) \<Rightarrow>
                \<lparr>corrected_text = Some (fix_spacing (concat enhanced)),
                 issues_found = Some issues,
                 confidence = Some (if issues \<noteq> [] then 99 / 100 else 1),
                 dominant_tense = None\<rparr>)))"

section \<open>Phase 10: articles (\<open>phase10_articles.py\<close>)\<close>











definition first_pass :: "services \<Rightarrow> string \<Rightarrow> int \<Rightarrow> string \<Rightarrow> string \<times> edit list" where
  \<comment> \<open>the checker's first pass of phases 6 and 10, with the phase number and the edit type;
      an exception of the checker is caught\<close>
  "first_pass sv text ph ty =
     (case tool_correct sv text of
        Inl e \<Rightarrow> (text, [])
      | Inr fixed \<Rightarrow>
          if fixed \<noteq> text then
            (fixed, [no_edit\<lparr>e_phase := Some ph, e_type := Some ty,
                       e_orig := Some text, e_repl := Some fixed, e_confidence := Some (98 / 100)\<rparr>])
          else (text, []))"


section \<open>Phase 6: subject-verb agreement (\<open>phase6_subject_verb.py\<close>)\<close>

definition SINGULAR_SUBJ :: "string set" where
  "SINGULAR_SUBJ = {''he'', ''she'', ''it'', ''each'', ''everyone'', ''someone'', ''nobody'',
     ''anyone'', ''everybody'', ''one'', ''somebody'', ''anybody'', ''no one''}"

definition PLURAL_SUBJ :: "string set" where
  "PLURAL_SUBJ = {''they'', ''we'', ''you'', ''police'', ''people'', ''children'', ''data'',
     ''media'', ''cattle'', ''staff'', ''fish'', ''deer''}"

definition COLLECTIVE_SINGULAR :: "string set" where
  "COLLECTIVE_SINGULAR = {''team'', ''family'', ''committee'', ''group'', ''class'', ''government'',
     ''staff'', ''audience'', ''jury'', ''crowd'', ''band'', ''public'', ''company''}"

definition ACADEMIC_SINGULAR :: "string set" where
  "ACADEMIC_SINGULAR = {''mathematics'', ''physics'', ''statistics'', ''economics'',
     ''politics'', ''news'', ''ethics'', ''athletics''}"

definition QUANTIFIER_SINGULAR :: "string list" where
  "QUANTIFIER_SINGULAR = [''neither of'', ''either of'', ''each of'', ''one of'', ''every one of'']"

definition QUANTIFIER_PLURAL :: "string list" where
  "QUANTIFIER_PLURAL = [''a number of'', ''a lot of'', ''some of'', ''many of'',
     ''several of'', ''a few of'', ''plenty of'']"

definition IRREGULAR :: "(string \<times> (string \<times> string) list) list" where
  "IRREGULAR =
     [(''be'', [(''singular'', ''is''), (''plural'', ''are'')]),
      (''have'', [(''singular'', ''has''), (''plural'', ''have'')]),
      (''do'', [(''singular'', ''does''), (''plural'', ''do'')]),
      (''go'', [(''singular'', ''goes''), (''plural'', ''go'')]),
      (''fly'', [(''singular'', ''flies''), (''plural'', ''fly'')]),
      (''try'', [(''singular'', ''tries''), (''plural'', ''try'')])]"

definition conjugate :: "string \<Rightarrow> string \<Rightarrow> exn + string" where
  \<comment> \<open>\<open>_conjugate\<close>; \<open>lemma[-2]\<close> raises on a lemma of one character\<close>
  "conjugate lemma0 num =
     (let lem = lower lemma0
      in case map_of IRREGULAR lem of
           Some forms \<Rightarrow>
             (case map_of forms num of None \<Rightarrow> Inl (Exception ''KeyError'') | Some f \<Rightarrow> Inr f)
         | None \<Rightarrow>
             if num = ''plural'' then Inr lem
             else if endswith lem ''y'' \<and> length lem < 2 then Inl IndexError
             else if endswith lem ''y'' \<and> lem ! (length lem - 2) \<notin> set ''aeiou''
               then Inr (butlast lem @ ''ies'')
             else if \<exists>e \<in> set [''s'', ''sh'', ''ch'', ''x'', ''z'', ''o'']. endswith lem e
               then Inr (lem @ ''es'')
             else Inr (lem @ ''s''))"

definition children :: "doc \<Rightarrow> nat \<Rightarrow> nat list" where
  \<comment> \<open>\<open>token.children\<close>: the indices of the tokens whose head is token \<open>i\<close>, in order\<close>
  "children d i = filter (\<lambda>j. j \<noteq> i \<and> tok_head (d ! j) = i) [0 ..< length d]"

fun reaches :: "doc \<Rightarrow> nat \<Rightarrow> nat \<Rightarrow> nat \<Rightarrow> bool" where
  \<comment> \<open>token \<open>j\<close> is token \<open>k\<close> or below it, following at most \<open>n\<close> heads\<close>
  "reaches d k 0 j = (j = k)"
| "reaches d k (Suc n) j =
     (j = k \<or> (j < length d \<and> tok_head (d ! j) \<noteq> j \<and> reaches d k n (tok_head (d ! j))))"

definition subtree :: "doc \<Rightarrow> nat \<Rightarrow> nat list" where
  \<comment> \<open>\<open>token.subtree\<close>: token \<open>k\<close> and the tokens below it, in order\<close>
  "subtree d k = filter (reaches d k (length d)) [0 ..< length d]"

definition subject_number :: "doc \<Rightarrow> nat \<Rightarrow> string" where
  \<comment> \<open>the cascade "Determine number" of \<open>correct\<close>, for the subject at index \<open>s\<close>\<close>
  "subject_number d s =
     (let subj_lower = lower (tok_text (d ! s));
          subtree_lower = join '' '' (map (\<lambda>j. lower (tok_text (d ! j))) (subtree d s))
      in if any_in QUANTIFIER_SINGULAR subtree_lower then ''singular''
         else if any_in QUANTIFIER_PLURAL subtree_lower then ''plural''
         else if subj_lower \<in> PLURAL_SUBJ then ''plural''
         else if subj_lower \<in> SINGULAR_SUBJ \<or> subj_lower \<in> COLLECTIVE_SINGULAR
                 \<or> subj_lower \<in> ACADEMIC_SINGULAR then ''singular''
         else if tok_tag (d ! s) \<in> {''NNS'', ''NNPS''} then ''plural''
         else ''singular'')"

definition preserve_case :: "string \<Rightarrow> string \<Rightarrow> string" where
  \<comment> \<open>the lines "Preserve exact case" of \<open>correct\<close>, for a token text that is not empty\<close>
  "preserve_case token_text target_form =
     (if is_upper (hd token_text) then capitalize target_form
      else if isupper token_text then upper target_form
      else target_form)"

datatype decision =
    Skip                    \<comment> \<open>\<open>i += 1\<close>\<close>
  | Raise exn               \<comment> \<open>the body raises\<close>
  | Replace string nat      \<comment> \<open>the token is replaced by this form; the index of the subject\<close>

definition sva_decide :: "doc \<Rightarrow> nat \<Rightarrow> decision" where
  \<comment> \<open>the body of the \<open>while\<close> loop of \<open>correct\<close> up to the test "Only replace if different"\<close>
  "sva_decide d i =
     (let token = d ! i
      in if tok_pos token \<noteq> ''VERB''
            \<or> tok_dep token \<notin> {''ROOT'', ''aux'', ''auxpass'', ''csubj'', ''csubjpass''} then Skip
         else
           (case filter (\<lambda>c. tok_dep (d ! c) \<in> {''nsubj'', ''nsubjpass'', ''csubj'', ''csubjpass''})
                   (children d i) of
              [] \<Rightarrow> Skip
            | s # _ \<Rightarrow>
                (case conjugate (lower (tok_lemma token)) (subject_number d s) of
                   Inl e \<Rightarrow> Raise e
                 | Inr target \<Rightarrow>
                     if target = [] then Skip
                     else if tok_text token = [] then Raise IndexError
                     else
                       (let target_form = preserve_case (tok_text token) target
                        in if lower target_form \<noteq> lower (tok_text token) then Replace target_form s
                           else Skip))))"

partial_function (option) sva_loop ::
  "services \<Rightarrow> doc \<Rightarrow> string list \<Rightarrow> nat \<Rightarrow> edit list \<Rightarrow> (exn + string list \<times> edit list) option" where
  \<comment> \<open>the \<open>while\<close> loop of \<open>correct\<close>; it re-parses and starts again after every replacement,
      and nothing bounds the number of replacements: \<open>None\<close> is a loop that never ends\<close>
  "sva_loop sv d tokens i issues =
     (if i < length d then
        (case sva_decide d i of
           Skip \<Rightarrow> sva_loop sv d tokens (i + 1) issues
         | Raise e \<Rightarrow> Some (Inl e)
         | Replace target_form s \<Rightarrow>
             (let tokens' = tokens[i := target_form @ tok_ws (d ! i)];
                  issues' = issues @ [no_edit\<lparr>e_orig := Some (tok_text (d ! i)),
                     e_repl := Some target_form, e_phase := Some 6, e_source := Some ''spaCy-rule'',
                     e_subject := Some (tok_text (d ! s)), e_confidence := Some (97 / 100)\<rparr>];
                  d' = nlp sv (concat tokens')
              in sva_loop sv d' (map text_with_ws d') 0 issues'))
      else Some (Inr (tokens, issues)))"

declare sva_loop.simps [code]

definition sva_correct :: "services \<Rightarrow> string \<Rightarrow> (exn + stage_result) option" where
  \<comment> \<open>\<open>SubjectVerbAgreementCorrector.correct\<close>\<close>
  "sva_correct sv text0 =
     (let text = strip (preprocess_text text0)
      in if text = [] then
           Some (Inr \<lparr>corrected_text = Some text, issues_found = Some [], confidence = Some 1,
                      dominant_tense = None\<rparr>)
         else
           (case first_pass sv text 6 ''LT_SVA'' of (text1, lt_issues) \<Rightarrow>
              (let d = nlp sv text1
               in (case sva_loop sv d (map text_with_ws d) 0 lt_issues of
                     None \<Rightarrow> None
                   | Some (Inl e) \<Rightarrow> Some (Inl e)
                   | Some (Inr (tokens, issues)) \<Rightarrow>
                       Some (Inr \<lparr>corrected_text =
                          Some (strip (re_sub False (Seq (Plus (Atom Space)) (Grp 1 (Atom (OneOf ''.,!?;:''))))
                                         (\<lambda>m. group m 1) (concat tokens))),
                        issues_found = Some issues,
                        confidence = Some (if issues \<noteq> [] then 98 / 100 else 1),
                        dominant_tense = None\<rparr>)))))"

section \<open>The pipeline (\<open>pipeline.py\<close>)\<close>

text \<open>
  A phase is an object with a class name and a method \<open>correct\<close>, which returns a result,
  raises, or does not return (\<open>None\<close>). Printing and the saving of the trace to a file (in a
  \<open>try\<close> of its own) have no part in the result. The keys \<open>id\<close>, \<open>runtime_sec\<close> and
  \<open>timestamp\<close> of the trace come from the clock and are left out.
\<close>

record phase =
  phase_name :: string
  correct :: "string \<Rightarrow> (exn + stage_result) option"

record trace =
  tr_input_text :: "string option"
  tr_corrected_text :: string
  tr_total_fixed :: nat
  tr_confidence_avg :: rat
  tr_f1_score :: "rat option"
  tr_edits :: "edit list"

definition setdefaults :: "int \<Rightarrow> string \<Rightarrow> edit \<Rightarrow> edit" where
  \<comment> \<open>the three \<open>edit.setdefault\<close> of \<open>run\<close>\<close>
  "setdefaults i name e =
     e\<lparr>e_phase := (case e_phase e of None \<Rightarrow> Some i | Some v \<Rightarrow> Some v),
       e_phase_name := (case e_phase_name e of None \<Rightarrow> Some name | Some v \<Rightarrow> Some v),
       e_confidence := (case e_confidence e of None \<Rightarrow> Some (95 / 100) | Some v \<Rightarrow> Some v)\<rparr>"

definition try_body :: "int \<Rightarrow> phase \<Rightarrow> string \<times> edit list \<Rightarrow> (exn + string \<times> edit list) option" where
  \<comment> \<open>the body of the \<open>try\<close> of \<open>run\<close>, for phase number \<open>i\<close>\<close>
  "try_body i ph st = (case st of (current, all_edits) \<Rightarrow>
     (case correct ph current of
        None \<Rightarrow> None
      | Some (Inl e) \<Rightarrow> Some (Inl e)
      | Some (Inr result) \<Rightarrow>
          (let current' = (case corrected_text result of None \<Rightarrow> current | Some t \<Rightarrow> t);
               issues = (case issues_found result of None \<Rightarrow> [] | Some es \<Rightarrow> es)
           in Some (Inr (current', all_edits @ map (setdefaults i (phase_name ph)) issues)))))"

definition run_phase :: "int \<Rightarrow> phase \<Rightarrow> string \<times> edit list \<Rightarrow> (string \<times> edit list) option" where
  \<comment> \<open>one iteration of the loop of \<open>run\<close>: \<open>except Exception: continue\<close>\<close>
  "run_phase i ph st =
     (case try_body i ph st of
        None \<Rightarrow> None
      | Some (Inl e) \<Rightarrow> Some st
      | Some (Inr st') \<Rightarrow> Some st')"

fun run_phases :: "int \<Rightarrow> phase list \<Rightarrow> string \<times> edit list \<Rightarrow> (string \<times> edit list) option" where
  \<comment> \<open>the loop of \<open>run\<close> over \<open>enumerate(phases, start=i)\<close>\<close>
  "run_phases i [] st = Some st"
| "run_phases i (ph # phs) st =
     (case run_phase i ph st of None \<Rightarrow> None | Some st' \<Rightarrow> run_phases (i + 1) phs st')"

definition edit_confidence :: "edit \<Rightarrow> rat" where
  \<comment> \<open>\<open>e.get("confidence", 0.95)\<close>\<close>
  "edit_confidence e = (case e_confidence e of None \<Rightarrow> 95 / 100 | Some c \<Rightarrow> c)"

definition run :: "phase list \<Rightarrow> string \<Rightarrow> trace option" where
  \<comment> \<open>\<open>GrammarPipeline.run\<close>, for the list \<open>self.phases\<close>\<close>
  "run phases text =
     (if strip text = [] then
        Some \<lparr>tr_input_text = None, tr_corrected_text = '''', tr_total_fixed = 0,
              tr_confidence_avg = 1, tr_f1_score = None, tr_edits = []\<rparr>
      else
        (case run_phases 6 phases (strip text, []) of
           None \<Rightarrow> None
         | Some (current, all_edits) \<Rightarrow>
             (let avg_confidence =
                    (if all_edits \<noteq> [] then
                       py_round 3 (sum_list (map edit_confidence all_edits) / of_nat (length all_edits))
                     else 1)
              in Some \<lparr>tr_input_text = Some text, tr_corrected_text = strip current,
                       tr_total_fixed = length all_edits, tr_confidence_avg = avg_confidence,
                       tr_f1_score = Some (py_round 2 avg_confidence), tr_edits = all_edits\<rparr>)))"


section \<open>Concrete inputs\<close>

text \<open>Annotated texts and services on which the stages are evaluated below.\<close>

definition tok :: "string \<Rightarrow> string \<Rightarrow> string \<Rightarrow> string \<Rightarrow> string \<Rightarrow> string \<Rightarrow> nat \<Rightarrow> token" where
  \<comment> \<open>a token that is a word: text, whitespace, pos, tag, lemma, dep, head\<close>
  "tok t w p g l dp h = \<lparr>tok_text = t, tok_ws = w, tok_pos = p, tok_tag = g, tok_lemma = l,
     tok_dep = dp, tok_head = h, tok_is_punct = False, tok_is_space = False, tok_sent_start = False\<rparr>"

definition dot :: "string \<Rightarrow> nat \<Rightarrow> token" where
  \<comment> \<open>a full stop, with its whitespace and head\<close>
  "dot w h = \<lparr>tok_text = ''.'', tok_ws = w, tok_pos = ''PUNCT'', tok_tag = ''.'', tok_lemma = ''.'',
     tok_dep = ''punct'', tok_head = h, tok_is_punct = True, tok_is_space = False, tok_sent_start = False\<rparr>"

definition quiet_tool :: "services" where
  \<comment> \<open>services whose checker finds nothing and whose annotator knows no text\<close>
  "quiet_tool = \<lparr>nlp = (\<lambda>t. []), spacy_model = (\<lambda>t. []), tool_check = (\<lambda>t. Inr 0),
     tool_correct = (\<lambda>t. Inr t), gf = None, re_compile = (\<lambda>p. Inl (Exception ''re.error''))\<rparr>"

definition annotated :: "(string \<times> doc) list \<Rightarrow> services" where
  \<comment> \<open>the quiet services with an annotator that knows the listed texts\<close>
  "annotated table =
     quiet_tool\<lparr>nlp := (\<lambda>t. case map_of table t of None \<Rightarrow> [] | Some d \<Rightarrow> d),
                spacy_model := (\<lambda>t. case map_of table t of None \<Rightarrow> [] | Some d \<Rightarrow> d)\<rparr>"





definition mary_doc :: "nat \<Rightarrow> doc" where
  \<comment> \<open>"Mary really ... really saw she.", with \<open>n\<close> times "really": the pronoun is token \<open>n + 2\<close>\<close>
  "mary_doc n =
     [(tok ''Mary'' '' '' ''PROPN'' ''NNP'' ''Mary'' ''nsubj'' (n + 1))\<lparr>tok_sent_start := True\<rparr>]
     @ replicate n (tok ''really'' '' '' ''ADV'' ''RB'' ''really'' ''advmod'' (n + 1))
     @ [tok ''saw'' '' '' ''VERB'' ''VBD'' ''see'' ''ROOT'' (n + 1),
        tok ''she'' '''' ''PRON'' ''PRP'' ''she'' ''dobj'' (n + 1),
        dot '''' (n + 1)]"

definition mary_text :: "nat \<Rightarrow> string" where
  "mary_text n = concat (map text_with_ws (mary_doc n))"

definition mary_services :: "nat \<Rightarrow> services" where
  "mary_services n = annotated [(mary_text n, mary_doc n)]"

definition tea_doc :: doc where
  \<comment> \<open>"She likes tea. And she likes coffee."\<close>
  "tea_doc =
     [(tok ''She'' '' '' ''PRON'' ''PRP'' ''she'' ''nsubj'' 1)\<lparr>tok_sent_start := True\<rparr>,
      tok ''likes'' '' '' ''VERB'' ''VBZ'' ''like'' ''ROOT'' 1,
      tok ''tea'' '''' ''NOUN'' ''NN'' ''tea'' ''dobj'' 1,
      dot '' '' 1,
      (tok ''And'' '' '' ''CCONJ'' ''CC'' ''and'' ''cc'' 6)\<lparr>tok_sent_start := True\<rparr>,
      tok ''she'' '' '' ''PRON'' ''PRP'' ''she'' ''nsubj'' 6,
      tok ''likes'' '' '' ''VERB'' ''VBZ'' ''like'' ''ROOT'' 6,
      tok ''coffee'' '''' ''NOUN'' ''NN'' ''coffee'' ''dobj'' 6,
      dot '''' 6]"

definition tea_services :: services where
  "tea_services = annotated [(''She likes tea. And she likes coffee.'', tea_doc)]"

definition hate_doc :: doc where
  \<comment> \<open>"I like it but I hate that.", parsed as two sentences, the second from "but" on\<close>
  "hate_doc =
     [(tok ''I'' '' '' ''PRON'' ''PRP'' ''I'' ''nsubj'' 1)\<lparr>tok_sent_start := True\<rparr>,
      tok ''like'' '' '' ''VERB'' ''VBP'' ''like'' ''ROOT'' 1,
      tok ''it'' '' '' ''PRON'' ''PRP'' ''it'' ''dobj'' 1,
      (tok ''but'' '' '' ''CCONJ'' ''CC'' ''but'' ''cc'' 5)\<lparr>tok_sent_start := True\<rparr>,
      tok ''I'' '' '' ''PRON'' ''PRP'' ''I'' ''nsubj'' 5,
      tok ''hate'' '' '' ''VERB'' ''VBP'' ''hate'' ''ROOT'' 5,
      tok ''that'' '''' ''PRON'' ''DT'' ''that'' ''dobj'' 5,
      dot '''' 5]"

definition hate_services :: services where
  "hate_services = annotated [(''I like it but I hate that.'', hate_doc)]"

definition barks_doc :: "string \<Rightarrow> doc" where
  \<comment> \<open>"The dogs BARKS loudly.", with the given spelling of the verb\<close>
  "barks_doc verb =
     [(tok ''The'' '' '' ''DET'' ''DT'' ''the'' ''det'' 1)\<lparr>tok_sent_start := True\<rparr>,
      tok ''dogs'' '' '' ''NOUN'' ''NNS'' ''dog'' ''nsubj'' 2,
      tok verb '' '' ''VERB'' ''VBZ'' ''bark'' ''ROOT'' 2,
      tok ''loudly'' '''' ''ADV'' ''RB'' ''loudly'' ''advmod'' 2,
      dot '''' 2]"

definition barks_services :: services where
  "barks_services = annotated
     [(''The dogs BARKS loudly.'', barks_doc ''BARKS''), (''The dogs Bark loudly.'', barks_doc ''Bark''),
      (''The dogs BARK loudly.'', barks_doc ''BARK'')]"



definition crash_phase :: phase where
  \<comment> \<open>a phase whose \<open>correct\<close> raises on every text\<close>
  "crash_phase = \<lparr>phase_name = ''SubjectVerbAgreementCorrector'',
     correct = (\<lambda>t. Some (Inl (Exception ''Simulated crash in phase'')))\<rparr>"

definition shout_phase :: phase where
  \<comment> \<open>a phase that puts the text in upper case and records one edit\<close>
  "shout_phase = \<lparr>phase_name = ''Shout'',
     correct = (\<lambda>t. Some (Inr \<lparr>corrected_text = Some (upper t),
        issues_found = Some [no_edit\<lparr>e_type := Some ''upper''\<rparr>], confidence = Some 1,
        dominant_tense = None\<rparr>))\<rparr>"

section \<open>The specification's formulas\<close>




section \<open>Auxiliary notions of the proofs\<close>





section \<open>Properties\<close>

subsection \<open>The irregular-verb table\<close>

text \<open>
  C10. The irregular-verb table of the tense stage pairs base forms and past forms one
  to one: no base form and no past form occurs twice. The two lookup helpers invert each
  other on it: for every pair (base, past) of the table, \<open>_past_participle(base)\<close> is
  past and \<open>_get_base(past)\<close> is base.
\<close>

theorem irregular_round_trip:
  "distinct (map fst irregular) \<and> distinct (map snd irregular) \<and>
   (\<forall>(b, p) \<in> set irregular. past_participle b = p \<and> get_base p = b)"
proof -
  have "\<forall>(b, p) \<in> set irregular. past_participle b = p \<and> get_base p = b" by code_simp
  then show ?thesis by (simp add: irregular_def)
qed

theorem irregular_round_trip_witness:
  "(''go'', ''went'') \<in> set irregular \<and> past_participle ''go'' = ''went'' \<and> get_base ''went'' = ''go''"
proof -
  have m: "(''go'', ''went'') \<in> set irregular" by (simp add: irregular_def)
  note r = irregular_round_trip [THEN conjunct2, THEN conjunct2]
  from bspec [OF r m] m show ?thesis by simp
qed

subsection \<open>The pipeline isolates a failing stage\<close>

lemma run_phase_raises:
  "correct ph current = Some (Inl e) \<Longrightarrow> run_phase i ph (current, all_edits) = Some (current, all_edits)"
  by (simp add: run_phase_def try_body_def)

lemma run_phases_append:
  "run_phases i (ps @ qs) st =
     (case run_phases i ps st of None \<Rightarrow> None | Some st' \<Rightarrow> run_phases (i + int (length ps)) qs st')"
  by (induction ps arbitrary: i st) (auto split: option.splits simp: algebra_simps)

lemma run_phase_total:
  "correct ph (fst st) \<noteq> None \<Longrightarrow> \<exists>st'. run_phase i ph st = Some st'"
  by (cases st) (auto simp: run_phase_def try_body_def split: option.splits sum.splits)

lemma run_phases_total:
  "\<forall>ph \<in> set phs. \<forall>t. correct ph t \<noteq> None \<Longrightarrow> \<exists>st'. run_phases i phs st = Some st'"
proof (induction phs arbitrary: i st)
  case Nil
  then show ?case by simp
next
  case (Cons ph phs)
  then obtain st1 where "run_phase i ph st = Some st1"
    using run_phase_total [of ph st i] by auto
  with Cons show ?case by auto
qed

text \<open>
  C1. When the phases before a phase have run and left the text \<open>current\<close> and the edits
  \<open>all_edits\<close>, and that phase's \<open>correct\<close> raises on \<open>current\<close>, the iteration of the loop
  leaves the text and the edits as they were, the loop goes on with the next phase from that
  very state, and \<open>run\<close> returns a trace provided the phases after it return or raise.
\<close>

theorem stage_failure_isolated:
  assumes before: "run_phases 6 before (strip text, []) = Some (current, all_edits)"
      and raises: "correct ph current = Some (Inl e)"
  shows "run_phase (6 + int (length before)) ph (current, all_edits) = Some (current, all_edits)
       \<and> run_phases 6 (before @ ph # after) (strip text, [])
           = run_phases (6 + int (length before) + 1) after (current, all_edits)
       \<and> ((\<forall>p \<in> set after. \<forall>t. correct p t \<noteq> None)
            \<longrightarrow> (\<exists>tr. run (before @ ph # after) text = Some tr))"
proof (intro conjI impI)
  show step: "run_phase (6 + int (length before)) ph (current, all_edits) = Some (current, all_edits)"
    using raises by (rule run_phase_raises)
  show all: "run_phases 6 (before @ ph # after) (strip text, [])
           = run_phases (6 + int (length before) + 1) after (current, all_edits)"
    using before step by (simp add: run_phases_append)
  assume "\<forall>p \<in> set after. \<forall>t. correct p t \<noteq> None"
  then obtain st' where "run_phases (6 + int (length before) + 1) after (current, all_edits) = Some st'"
    using run_phases_total by blast
  with all show "\<exists>tr. run (before @ ph # after) text = Some tr"
    by (cases st') (simp add: run_def Let_def)
qed

theorem stage_failure_isolated_witness:
  "run_phases 6 [] (strip ''The team win.'', []) = Some (''The team win.'', [])
   \<and> correct crash_phase ''The team win.'' = Some (Inl (Exception ''Simulated crash in phase''))
   \<and> run_phase 6 crash_phase (''The team win.'', []) = Some (''The team win.'', [])
   \<and> run_phases 6 [crash_phase, shout_phase] (strip ''The team win.'', [])
        = run_phases 7 [shout_phase] (''The team win.'', [])
   \<and> (\<exists>tr. run [crash_phase, shout_phase] ''The team win.'' = Some tr)"
proof -
  have h1: "run_phases 6 [] (strip ''The team win.'', []) = Some (''The team win.'', [])"
    by code_simp
  have h2: "correct crash_phase ''The team win.'' = Some (Inl (Exception ''Simulated crash in phase''))"
    by (simp add: crash_phase_def)
  have h3: "\<forall>p \<in> set [shout_phase]. \<forall>t. correct p t \<noteq> None"
    by (simp add: shout_phase_def)
  from stage_failure_isolated [OF h1 h2, of "[shout_phase]"] h1 h2 h3 show ?thesis
    by simp
qed

subsection \<open>The keys of a stage's result\<close>

text \<open>
  C3. On the empty text and on a text of spaces, the result of the pronoun stage and the
  result of the conjunction stage have no key \<open>confidence\<close>: the claim that every stage
  returns all three keys on every input fails there.
\<close>

theorem empty_input_results_lack_confidence:
  "pronoun_correct sv '''' =
     \<lparr>corrected_text = Some '''', issues_found = Some [], confidence = None, dominant_tense = None\<rparr>
   \<and> conj_correct sv '''' =
     \<lparr>corrected_text = Some '''', issues_found = Some [], confidence = None, dominant_tense = None\<rparr>
   \<and> confidence (pronoun_correct sv ''  '') = None \<and> confidence (conj_correct sv ''  '') = None"
  by (simp add: pronoun_correct_def conj_correct_def strip_def lstrip_def rstrip_def is_space_def)

subsection \<open>The confidence of the tense stage\<close>



subsection \<open>The window of the antecedent search\<close>

text \<open>
  C6. In "Mary really ... really saw she." with eighteen times "really", the pronoun is
  token 20 and the only noun, "Mary", is token 0, twenty tokens back, and is neither a
  prepositional object nor a possessive. The search stops at token 1: it finds no
  antecedent and the stage leaves the pronoun as it is, with no edit. With seventeen
  times "really" the same noun, nineteen tokens back, is found.
\<close>

theorem antecedent_window_is_19:
  "antecedent_ok (mary_doc 18 ! 0)
   \<and> find_antecedent (mary_doc 18) 20 = None
   \<and> pronoun_correct (mary_services 18) (mary_text 18) =
       \<lparr>corrected_text = Some (mary_text 18), issues_found = Some [], confidence = Some 1,
        dominant_tense = None\<rparr>
   \<and> find_antecedent (mary_doc 17) 19 = Some 0"
  by code_simp

subsection \<open>The connector before a sentence that begins with it\<close>

text \<open>
  C7. After "She likes tea." the sentence "And she likes coffee." begins with the chosen
  connector, and the stage inserts the connector all the same: the test compares the
  lower-cased sentence with the capitalized connector. In "I like it but I hate that.",
  parsed as two sentences, nothing is inserted and an edit is recorded.
\<close>

theorem connector_doubled_and_edit_without_insertion:
  "corrected_text (conj_correct tea_services ''She likes tea. And she likes coffee.'')
     = Some ''She likes tea. And, And she likes coffee.''
   \<and> corrected_text (conj_correct hate_services ''I like it but I hate that.'')
     = Some ''I like it but I hate that.''
   \<and> issues_found (conj_correct hate_services ''I like it but I hate that.'')
     = Some [no_edit\<lparr>e_span := Some (9, 26), e_orig := Some '''', e_repl := Some ''but'',
               e_type := Some ''connector'', e_reason := Some ''contrast'',
               e_confidence := Some (99 / 100)\<rparr>]"
  by code_simp

subsection \<open>The capitalization of a replaced verb\<close>

text \<open>
  C4. In "The dogs BARKS loudly." the verb is all capitals and its replacement is "Bark",
  capitalized, not "BARK": the test of the first letter comes first and holds for every
  word in capitals, so the branch for all capitals is never taken for such a word.
\<close>

theorem all_caps_verb_is_capitalized:
  "preserve_case ''BARKS'' ''bark'' = ''Bark''
   \<and> sva_correct barks_services ''The dogs BARKS loudly.'' =
       Some (Inr \<lparr>corrected_text = Some ''The dogs Bark loudly.'',
         issues_found = Some [no_edit\<lparr>e_orig := Some ''BARKS'', e_repl := Some ''Bark'', e_phase := Some 6,
            e_source := Some ''spaCy-rule'', e_subject := Some ''dogs'', e_confidence := Some (97 / 100)\<rparr>],
         confidence = Some (98 / 100), dominant_tense = None\<rparr>)"
  by code_simp

subsection \<open>The future transform of the tense stage\<close>

















subsection \<open>The article before an acronym\<close>








subsection \<open>A text that no stage changes\<close>










end
